theory Spec2Isabelle
  imports Main
begin

section \<open>Exceptions and the error monad\<close>

text \<open>
  The module \<^verbatim>\<open>assignment.py\<close> raises, or lets the library raise, five kinds of
  exception.  A function that can raise returns \<open>error + 'a\<close>, with \<open>Inl\<close> for the
  exception.  \<open>TypeError\<close> and \<open>ValueError\<close> carry their message (given without the
  \<^verbatim>\<open>repr()\<close> of the offending value where Python appends one), \<open>KeyError\<close> the
  missing key, \<open>ValidationError\<close> the messages of the schema engine by field name.
\<close>

datatype error =
    TypeError string
  | ValueError string
  | KeyError string
  | InvalidOperation
  | ValidationError "(string \<times> string) list"

definition bnd :: "error + 'a \<Rightarrow> ('a \<Rightarrow> error + 'b) \<Rightarrow> error + 'b" where
  "bnd m f = (case m of Inl e \<Rightarrow> Inl e | Inr x \<Rightarrow> f x)"

fun sequence_err :: "(error + 'a) list \<Rightarrow> error + 'a list" where
  "sequence_err [] = Inr []"
| "sequence_err (m # ms) =
     (case m of
        Inl e \<Rightarrow> Inl e
      | Inr x \<Rightarrow> (case sequence_err ms of Inl e \<Rightarrow> Inl e | Inr xs \<Rightarrow> Inr (x # xs)))"

section \<open>Decimal digits\<close>

definition is_digit :: "char \<Rightarrow> bool" where
  "is_digit c = (c \<in> set ''0123456789'')"

definition digit_char :: "nat \<Rightarrow> char" where
  "digit_char n = ''0123456789'' ! n"

definition digit_val :: "char \<Rightarrow> nat" where
  "digit_val c = length (takeWhile (\<lambda>d. d \<noteq> c) ''0123456789'')"

text \<open>\<^verbatim>\<open>str(n)\<close> for an integer \<open>n \<ge> 0\<close>.\<close>

function str_nat :: "nat \<Rightarrow> string" where
  "str_nat n =
     (if n < 10 then [digit_char n] else str_nat (n div 10) @ [digit_char (n mod 10)])"
  by pat_completeness auto
termination
  by (relation "measure id") auto

declare str_nat.simps [simp del]

text \<open>\<^verbatim>\<open>int(s)\<close> for a string of ASCII digits (leading zeros allowed).\<close>

definition int_of_digits :: "string \<Rightarrow> nat" where
  "int_of_digits s = foldl (\<lambda>a c. 10 * a + digit_val c) 0 s"

text \<open>\<^verbatim>\<open>"%+d" % k\<close> and \<^verbatim>\<open>"%0wd" % n\<close> (for \<open>n \<ge> 0\<close>).\<close>

definition fmt_plus_d :: "int \<Rightarrow> string" where
  "fmt_plus_d k =
     (if k < 0 then CHR ''-'' # str_nat (nat (- k)) else CHR ''+'' # str_nat (nat k))"

definition zfill :: "nat \<Rightarrow> nat \<Rightarrow> string" where
  "zfill w n = replicate (w - length (str_nat n)) (CHR ''0'') @ str_nat n"

text \<open>\<^verbatim>\<open>str.strip()\<close> over ASCII: the characters for which \<^verbatim>\<open>isspace()\<close> holds.\<close>

definition is_space :: "char \<Rightarrow> bool" where
  "is_space c =
     (c \<in> set [CHR 0x09, CHR 0x0A, CHR 0x0B, CHR 0x0C, CHR 0x0D,
                CHR 0x1C, CHR 0x1D, CHR 0x1E, CHR 0x1F, CHR 0x20])"

definition strip :: "string \<Rightarrow> string" where
  "strip s = rev (dropWhile is_space (rev (dropWhile is_space s)))"

text \<open>Lower case of the letters the patterns of this file mention (\<^verbatim>\<open>re.IGNORECASE\<close>).\<close>

definition lower :: "char \<Rightarrow> char" where
  "lower c =
     (if c = CHR ''E'' then CHR ''e'' else if c = CHR ''I'' then CHR ''i''
      else if c = CHR ''N'' then CHR ''n'' else if c = CHR ''F'' then CHR ''f''
      else if c = CHR ''T'' then CHR ''t'' else if c = CHR ''Y'' then CHR ''y''
      else if c = CHR ''A'' then CHR ''a'' else if c = CHR ''S'' then CHR ''s''
      else c)"

section \<open>The library type \<^verbatim>\<open>decimal.Decimal\<close>\<close>

text \<open>
  A \<^verbatim>\<open>Decimal\<close> is a sign, a coefficient and an exponent (the value is
  \<open>\<plusminus> coefficient \<times> 10\<^sup>e\<^sup>x\<^sup>p\<close>), or an infinity, or a (quiet or signalling) NaN with a
  diagnostic payload; \<open>True\<close> is the negative sign.  The functions below follow the
  reference implementation \<^verbatim>\<open>_pydecimal.py\<close> of the standard library, over ASCII
  strings: \<^verbatim>\<open>Decimal.__str__\<close>, \<^verbatim>\<open>Decimal.__new__\<close>, \<^verbatim>\<open>Decimal.__format__\<close>
  with the specifier \<^verbatim>\<open>"f"\<close>, and \<^verbatim>\<open>Decimal.__eq__\<close>.
\<close>

datatype decimal =
    Finite bool nat int
  | Infinity bool
  | NaN bool bool nat

definition sign_str :: "bool \<Rightarrow> string" where
  "sign_str s = (if s then ''-'' else [])"

text \<open>
  \<^verbatim>\<open>Decimal.__str__\<close>: the scientific string of the number.  No exponent is
  written when the exponent is at most 0 and more than \<open>-6\<close> digits stand left of
  the point; otherwise one digit stands before the point, followed by \<^verbatim>\<open>E\<close> and the
  signed exponent.
\<close>

fun decimal_str :: "decimal \<Rightarrow> string" where
  "decimal_str (Infinity s) = sign_str s @ ''Infinity''"
| "decimal_str (NaN s signal diag) =
     sign_str s @ (if signal then ''sNaN'' else ''NaN'') @ (if diag = 0 then [] else str_nat diag)"
| "decimal_str (Finite s c e) =
     (let ds = str_nat c;
          leftdigits = e + int (length ds);
          dotplace = (if e \<le> 0 \<and> leftdigits > - 6 then leftdigits else 1);
          intpart =
            (if dotplace \<le> 0 then ''0''
             else if dotplace \<ge> int (length ds)
               then ds @ replicate (nat (dotplace - int (length ds))) (CHR ''0'')
             else take (nat dotplace) ds);
          fracpart =
            (if dotplace \<le> 0 then ''.'' @ replicate (nat (- dotplace)) (CHR ''0'') @ ds
             else if dotplace \<ge> int (length ds) then []
             else ''.'' @ drop (nat dotplace) ds);
          exp = (if leftdigits = dotplace then [] else CHR ''E'' # fmt_plus_d (leftdigits - dotplace))
      in sign_str s @ intpart @ fracpart @ exp)"

text \<open>
  \<^verbatim>\<open>format(d, "f")\<close>: fixed-point notation, never an exponent.  A zero with a positive
  exponent is rescaled to exponent 0 first.
\<close>

fun decimal_format_f :: "decimal \<Rightarrow> string" where
  "decimal_format_f (Finite s c e0) =
     (let e = (if c = 0 \<and> e0 > 0 then 0 else e0);
          ds = str_nat c;
          dotplace = e + int (length ds);
          intpart =
            (if dotplace < 0 then ''0''
             else if dotplace > int (length ds)
               then ds @ replicate (nat (dotplace - int (length ds))) (CHR ''0'')
             else if take (nat dotplace) ds = [] then ''0'' else take (nat dotplace) ds);
          fracpart =
            (if dotplace < 0 then replicate (nat (- dotplace)) (CHR ''0'') @ ds
             else if dotplace > int (length ds) then []
             else drop (nat dotplace) ds)
      in sign_str s @ intpart @ (if fracpart = [] then [] else ''.'' @ fracpart))"
| "decimal_format_f d = decimal_str d"

text \<open>
  The numeric string grammar of \<^verbatim>\<open>Decimal(str)\<close>: after an optional sign, digits with
  an optional fraction and an optional exponent (at least one digit before or after
  the point), or \<^verbatim>\<open>Inf\<close>/\<^verbatim>\<open>Infinity\<close>, or \<^verbatim>\<open>NaN\<close>/\<^verbatim>\<open>sNaN\<close> with optional
  diagnostic digits; letters in either case.
\<close>

definition parse_exponent :: "string \<Rightarrow> int option" where
  "parse_exponent r =
     (case r of
        [] \<Rightarrow> Some 0
      | c # t \<Rightarrow>
          if lower c \<noteq> CHR ''e'' then None
          else
            (let (neg, ds) =
               (case t of
                  [] \<Rightarrow> (False, [])
                | x # xs \<Rightarrow>
                    if x = CHR ''-'' then (True, xs)
                    else if x = CHR ''+'' then (False, xs) else (False, t))
             in if ds = [] \<or> \<not> list_all is_digit ds then None
                else Some (if neg then - int (int_of_digits ds) else int (int_of_digits ds))))"

definition parse_number :: "string \<Rightarrow> (nat \<times> int) option" where
  "parse_number r =
     (let intpart = takeWhile is_digit r;
          r1 = dropWhile is_digit r;
          (fracpart, r2) =
            (case r1 of
               [] \<Rightarrow> ([], r1)
             | c # t \<Rightarrow>
                 if c = CHR ''.'' then (takeWhile is_digit t, dropWhile is_digit t)
                 else ([], r1))
      in if intpart = [] \<and> fracpart = [] then None
         else
           (case parse_exponent r2 of
              None \<Rightarrow> None
            | Some exp \<Rightarrow> Some (int_of_digits (intpart @ fracpart), exp - int (length fracpart))))"

definition parse_special :: "bool \<Rightarrow> string \<Rightarrow> decimal option" where
  "parse_special neg r =
     (let l = map lower r in
      if l = ''inf'' \<or> l = ''infinity'' then Some (Infinity neg)
      else if take 3 l = ''nan'' \<and> list_all is_digit (drop 3 l)
        then Some (NaN neg False (int_of_digits (drop 3 l)))
      else if take 4 l = ''snan'' \<and> list_all is_digit (drop 4 l)
        then Some (NaN neg True (int_of_digits (drop 4 l)))
      else None)"

definition Decimal_of_str :: "string \<Rightarrow> error + decimal" where
  "Decimal_of_str v =
     (let s = filter (\<lambda>c. c \<noteq> CHR ''_'') (strip v);
          (neg, r) =
            (case s of
               [] \<Rightarrow> (False, [])
             | c # t \<Rightarrow>
                 if c = CHR ''-'' then (True, t)
                 else if c = CHR ''+'' then (False, t) else (False, s))
      in case parse_number r of
           Some (c, e) \<Rightarrow> Inr (Finite neg c e)
         | None \<Rightarrow>
             (case parse_special neg r of
                Some d \<Rightarrow> Inr d
              | None \<Rightarrow> Inl InvalidOperation))"

definition Decimal_of_int :: "int \<Rightarrow> decimal" where
  "Decimal_of_int i = Finite (i < 0) (nat \<bar>i\<bar>) 0"

definition is_finite :: "decimal \<Rightarrow> bool" where
  "is_finite d = (case d of Finite s c e \<Rightarrow> True | _ \<Rightarrow> False)"

text \<open>
  \<^verbatim>\<open>Decimal.__eq__\<close>: numeric equality.  Zeros are equal whatever their sign and
  exponent, a NaN equals nothing, and finite numbers are compared after aligning
  their exponents.
\<close>

fun decimal_eq :: "decimal \<Rightarrow> decimal \<Rightarrow> bool" where
  "decimal_eq (Finite s1 c1 e1) (Finite s2 c2 e2) =
     (if c1 = 0 \<or> c2 = 0 then c1 = c2
      else s1 = s2 \<and> c1 * 10 ^ nat (e1 - e2) = c2 * 10 ^ nat (e2 - e1))"
| "decimal_eq (Infinity s1) (Infinity s2) = (s1 = s2)"
| "decimal_eq _ _ = False"

section \<open>The library types \<^verbatim>\<open>datetime.date\<close> and \<^verbatim>\<open>datetime.datetime\<close>\<close>

text \<open>
  A \<^verbatim>\<open>date\<close> is a year, a month and a day; a \<^verbatim>\<open>datetime\<close> is a subclass of
  \<^verbatim>\<open>date\<close> that adds the time of day and, when it is aware, its offset from UTC.
  The offset is modelled in whole minutes, the resolution of an ISO-8601 offset
  \<^verbatim>\<open>\<plusminus>HH:MM\<close>.  Python builds only objects whose fields pass the range checks
  \<open>date_ok\<close> and \<open>datetime_ok\<close>.
\<close>

record date =
  year :: nat
  month :: nat
  day :: nat

record datetime = date +
  hour :: nat
  minute :: nat
  second :: nat
  microsecond :: nat
  utcoffset :: "int option"

definition is_leap :: "nat \<Rightarrow> bool" where
  "is_leap y = (y mod 4 = 0 \<and> (y mod 100 \<noteq> 0 \<or> y mod 400 = 0))"

definition days_in_month :: "nat \<Rightarrow> nat \<Rightarrow> nat" where
  "days_in_month y m =
     (if m = 2 \<and> is_leap y then 29
      else [0, 31, 28, 31, 30, 31, 30, 31, 31, 30, 31, 30, 31] ! m)"

definition check_date_fields :: "nat \<Rightarrow> nat \<Rightarrow> nat \<Rightarrow> bool" where
  "check_date_fields y m d =
     (1 \<le> y \<and> y \<le> 9999 \<and> 1 \<le> m \<and> m \<le> 12 \<and> 1 \<le> d \<and> d \<le> days_in_month y m)"

definition check_time_fields :: "nat \<Rightarrow> nat \<Rightarrow> nat \<Rightarrow> nat \<Rightarrow> bool" where
  "check_time_fields hh mm ss us = (hh \<le> 23 \<and> mm \<le> 59 \<and> ss \<le> 59 \<and> us \<le> 999999)"

definition check_utc_offset :: "int option \<Rightarrow> bool" where
  "check_utc_offset off = (case off of None \<Rightarrow> True | Some m \<Rightarrow> - 1440 < m \<and> m < 1440)"

definition date_ok :: "'a date_scheme \<Rightarrow> bool" where
  "date_ok d = check_date_fields (year d) (month d) (day d)"

definition datetime_ok :: "datetime \<Rightarrow> bool" where
  "datetime_ok t =
     (date_ok t \<and> check_time_fields (hour t) (minute t) (second t) (microsecond t)
      \<and> check_utc_offset (utcoffset t))"

text \<open>\<^verbatim>\<open>date.isoformat()\<close>: \<^verbatim>\<open>"%04d-%02d-%02d"\<close>.\<close>

definition date_isoformat :: "'a date_scheme \<Rightarrow> string" where
  "date_isoformat d = zfill 4 (year d) @ ''-'' @ zfill 2 (month d) @ ''-'' @ zfill 2 (day d)"

definition format_time :: "nat \<Rightarrow> nat \<Rightarrow> nat \<Rightarrow> nat \<Rightarrow> string" where
  "format_time hh mm ss us =
     zfill 2 hh @ '':'' @ zfill 2 mm @ '':'' @ zfill 2 ss
     @ (if us \<noteq> 0 then ''.'' @ zfill 6 us else [])"

definition format_offset :: "int option \<Rightarrow> string" where
  "format_offset off =
     (case off of
        None \<Rightarrow> []
      | Some m \<Rightarrow>
          (if m < 0 then ''-'' else ''+'')
          @ zfill 2 (nat \<bar>m\<bar> div 60) @ '':'' @ zfill 2 (nat \<bar>m\<bar> mod 60))"

text \<open>\<^verbatim>\<open>datetime.isoformat()\<close> with the default separator \<^verbatim>\<open>T\<close>.\<close>

definition datetime_isoformat :: "datetime \<Rightarrow> string" where
  "datetime_isoformat t =
     date_isoformat t @ ''T''
     @ format_time (hour t) (minute t) (second t) (microsecond t)
     @ format_offset (utcoffset t)"

text \<open>
  \<^verbatim>\<open>date.fromisoformat\<close> and \<^verbatim>\<open>datetime.fromisoformat\<close> are modelled on the
  extended calendar format, the one \<^verbatim>\<open>isoformat()\<close> writes and the only one Python
  3.7 to 3.10 read: \<^verbatim>\<open>YYYY-MM-DD\<close> for a date, and
  \<^verbatim>\<open>YYYY-MM-DD[*HH[:MM[:SS[.fff[fff]]]][+HH:MM]]\<close> for a datetime, where \<^verbatim>\<open>*\<close> is any
  one character.  Later versions of Python read further ISO-8601 forms (basic and
  week dates, offsets with seconds); they are outside this model, which rejects them.
  Every rejection is the library's \<^verbatim>\<open>ValueError\<close>.
\<close>

definition invalid_isoformat :: error where
  "invalid_isoformat = ValueError ''Invalid isoformat string''"

definition parse_isoformat_date :: "string \<Rightarrow> (nat \<times> nat \<times> nat) option" where
  "parse_isoformat_date s =
     (let y = take 4 s; m = take 2 (drop 5 s); d = take 2 (drop 8 s) in
      if length s = 10 \<and> list_all is_digit (y @ m @ d)
         \<and> s ! 4 = CHR ''-'' \<and> s ! 7 = CHR ''-''
         \<and> check_date_fields (int_of_digits y) (int_of_digits m) (int_of_digits d)
      then Some (int_of_digits y, int_of_digits m, int_of_digits d)
      else None)"

definition date_fromisoformat :: "string \<Rightarrow> error + date" where
  "date_fromisoformat s =
     (case parse_isoformat_date s of
        None \<Rightarrow> Inl invalid_isoformat
      | Some (y, m, d) \<Rightarrow> Inr \<lparr>year = y, month = m, day = d\<rparr>)"

definition parse_hh_mm_ss_ff :: "string \<Rightarrow> (nat \<times> nat \<times> nat \<times> nat) option" where
  "parse_hh_mm_ss_ff t =
     (let n = length t;
          hh = take 2 t; mm = take 2 (drop 3 t); ss = take 2 (drop 6 t); ff = drop 9 t in
      if n \<notin> {2, 5, 8, 12, 15} then None
      else if \<not> list_all is_digit (hh @ mm @ ss @ ff) then None
      else if n > 2 \<and> t ! 2 \<noteq> CHR '':'' then None
      else if n > 5 \<and> t ! 5 \<noteq> CHR '':'' then None
      else if n > 8 \<and> t ! 8 \<noteq> CHR ''.'' then None
      else Some (int_of_digits hh, int_of_digits mm, int_of_digits ss,
                 if n = 12 then int_of_digits ff * 1000 else int_of_digits ff))"

definition parse_tz :: "bool \<Rightarrow> string \<Rightarrow> int option" where
  "parse_tz neg z =
     (if length z = 5 \<and> list_all is_digit (take 2 z @ drop 3 z) \<and> z ! 2 = CHR '':''
      then
        (let m = int (int_of_digits (take 2 z) * 60 + int_of_digits (drop 3 z)) in
         if m < 1440 then Some (if neg then - m else m) else None)
      else None)"

definition parse_isoformat_time ::
    "string \<Rightarrow> ((nat \<times> nat \<times> nat \<times> nat) \<times> int option) option" where
  "parse_isoformat_time tstr =
     (let sgn = (if CHR ''-'' \<in> set tstr then Some (CHR ''-'')
                 else if CHR ''+'' \<in> set tstr then Some (CHR ''+'') else None)
      in case sgn of
           None \<Rightarrow> map_option (\<lambda>c. (c, None)) (parse_hh_mm_ss_ff tstr)
         | Some c \<Rightarrow>
             (case parse_hh_mm_ss_ff (takeWhile (\<lambda>x. x \<noteq> c) tstr) of
                None \<Rightarrow> None
              | Some comps \<Rightarrow>
                  (case parse_tz (c = CHR ''-'') (tl (dropWhile (\<lambda>x. x \<noteq> c) tstr)) of
                     None \<Rightarrow> None
                   | Some off \<Rightarrow> Some (comps, Some off))))"

definition datetime_fromisoformat :: "string \<Rightarrow> error + datetime" where
  "datetime_fromisoformat s =
     (case parse_isoformat_date (take 10 s) of
        None \<Rightarrow> Inl invalid_isoformat
      | Some (y, m, d) \<Rightarrow>
          (case (if drop 11 s = [] then Some ((0, 0, 0, 0), None)
                 else parse_isoformat_time (drop 11 s)) of
             None \<Rightarrow> Inl invalid_isoformat
           | Some ((hh, mm, ss, us), off) \<Rightarrow>
               if check_time_fields hh mm ss us
               then Inr \<lparr>year = y, month = m, day = d, hour = hh, minute = mm,
                         second = ss, microsecond = us, utcoffset = off\<rparr>
               else Inl invalid_isoformat))"

section \<open>Python values and JSON text\<close>

text \<open>
  The values the module handles: the JSON-native ones (\<^verbatim>\<open>None\<close>, \<^verbatim>\<open>bool\<close>,
  \<^verbatim>\<open>int\<close>, \<^verbatim>\<open>str\<close>, \<^verbatim>\<open>list\<close>, \<^verbatim>\<open>dict\<close> with string keys, kept in insertion
  order), the three library types, the two classes of the module, and any other
  object, of which only the module and the name of its class matter.  The
  attributes of \<^verbatim>\<open>Stock\<close> and \<^verbatim>\<open>Trade\<close> are in the order of the parameters of
  \<^verbatim>\<open>__init__\<close>.  The attributes on which \<^verbatim>\<open>to_dict\<close> calls \<^verbatim>\<open>str()\<close> hold a
  \<^verbatim>\<open>Decimal\<close>, as the classes document; the others hold any value, as Python lets
  them.  Floating-point numbers are left out.

  \<^verbatim>\<open>Stock(symbol, date, open_, high, low, close, volume)\<close> and
  \<^verbatim>\<open>Trade(symbol, timestamp, order, price, volume, commission)\<close> only store their
  arguments: the constructors of the datatype are the two \<^verbatim>\<open>__init__\<close> methods.
\<close>

datatype pyval =
    PNone
  | PBool bool
  | PInt int
  | PStr string
  | PList "pyval list"
  | PDict "(string \<times> pyval) list"
  | PDate date
  | PDateTime datetime
  | PDecimal decimal
  | Stock pyval pyval decimal decimal decimal decimal pyval
  | Trade pyval pyval pyval decimal pyval decimal
  | PObject string string

text \<open>
  A JSON text is modelled by the tree it denotes: \<^verbatim>\<open>json.dumps\<close> yields such a tree
  and \<^verbatim>\<open>json.loads\<close> reads one, so the printer and the parser of the \<^verbatim>\<open>json\<close>
  module, which the module uses as they are, are taken to be inverse on these trees.
\<close>

datatype json =
    JNull
  | JBool bool
  | JInt int
  | JStr string
  | JArr "json list"
  | JObj "(string \<times> json) list"

text \<open>\<^verbatim>\<open>type(obj).__name__\<close>, and \<^verbatim>\<open>"%s" % type(obj)\<close>.\<close>

fun type_name :: "pyval \<Rightarrow> string" where
  "type_name PNone = ''NoneType''"
| "type_name (PBool b) = ''bool''"
| "type_name (PInt i) = ''int''"
| "type_name (PStr s) = ''str''"
| "type_name (PList xs) = ''list''"
| "type_name (PDict kvs) = ''dict''"
| "type_name (PDate d) = ''date''"
| "type_name (PDateTime t) = ''datetime''"
| "type_name (PDecimal d) = ''Decimal''"
| "type_name (Stock s d o' h l c v) = ''Stock''"
| "type_name (Trade s t o' p v c) = ''Trade''"
| "type_name (PObject m n) = n"

fun type_module :: "pyval \<Rightarrow> string" where
  "type_module (PDate d) = ''datetime''"
| "type_module (PDateTime t) = ''datetime''"
| "type_module (PDecimal d) = ''decimal''"
| "type_module (Stock s d o' h l c v) = ''assignment''"
| "type_module (Trade s t o' p v c) = ''assignment''"
| "type_module (PObject m n) = m"
| "type_module v = ''builtins''"

definition type_repr :: "pyval \<Rightarrow> string" where
  "type_repr v =
     ''<class '' @ [CHR 0x27]
     @ (if type_module v = ''builtins'' then [] else type_module v @ ''.'') @ type_name v
     @ [CHR 0x27] @ ''>''"

text \<open>Dictionaries: \<^verbatim>\<open>k in d\<close>, \<^verbatim>\<open>d[k]\<close>, \<^verbatim>\<open>d[k] = v\<close> and \<^verbatim>\<open>dict(pairs)\<close>.\<close>

definition contains :: "(string \<times> 'v) list \<Rightarrow> string \<Rightarrow> bool" where
  "contains d k = (k \<in> set (map fst d))"

definition getitem :: "(string \<times> 'v) list \<Rightarrow> string \<Rightarrow> error + 'v" where
  "getitem d k = (case map_of d k of None \<Rightarrow> Inl (KeyError k) | Some v \<Rightarrow> Inr v)"

fun setitem :: "(string \<times> 'v) list \<Rightarrow> string \<Rightarrow> 'v \<Rightarrow> (string \<times> 'v) list" where
  "setitem [] k v = [(k, v)]"
| "setitem ((k', v') # d) k v = (if k' = k then (k, v) # d else (k', v') # setitem d k v)"

definition dict_of_pairs :: "(string \<times> 'v) list \<Rightarrow> (string \<times> 'v) list" where
  "dict_of_pairs ps = foldl (\<lambda>d (k, v). setitem d k v) [] ps"

section \<open>The library constructor \<^verbatim>\<open>Decimal(value)\<close>\<close>

text \<open>
  \<^verbatim>\<open>Decimal.__new__\<close> dispatches on the type of its argument: a string is parsed, an
  \<^verbatim>\<open>int\<close> (a \<^verbatim>\<open>bool\<close> is one) and a \<^verbatim>\<open>Decimal\<close> are converted, a list is read as
  \<^verbatim>\<open>[sign, digits, exponent]\<close>, and anything else is a \<^verbatim>\<open>TypeError\<close>.
\<close>

definition as_int :: "pyval \<Rightarrow> int option" where
  "as_int v = (case v of PInt i \<Rightarrow> Some i | PBool b \<Rightarrow> Some (if b then 1 else 0) | _ \<Rightarrow> None)"

fun tuple_digits :: "pyval list \<Rightarrow> nat \<Rightarrow> nat option" where
  "tuple_digits [] acc = Some acc"
| "tuple_digits (x # xs) acc =
     (case as_int x of
        None \<Rightarrow> None
      | Some i \<Rightarrow> if 0 \<le> i \<and> i \<le> 9 then tuple_digits xs (10 * acc + nat i) else None)"

definition invalid_digits :: error where
  "invalid_digits =
     ValueError ''The second value in the tuple must be composed of integers in the range 0 through 9.''"

definition iter_digits :: "pyval \<Rightarrow> error + nat" where
  "iter_digits v =
     (case v of
        PList xs \<Rightarrow> (case tuple_digits xs 0 of None \<Rightarrow> Inl invalid_digits | Some n \<Rightarrow> Inr n)
      | PStr s \<Rightarrow> if s = [] then Inr 0 else Inl invalid_digits
      | PDict kvs \<Rightarrow> if kvs = [] then Inr 0 else Inl invalid_digits
      | _ \<Rightarrow> Inl (TypeError ([CHR 0x27] @ type_name v @ [CHR 0x27] @ '' object is not iterable'')))"

definition Decimal_of_list :: "pyval list \<Rightarrow> error + decimal" where
  "Decimal_of_list xs =
     (if length xs \<noteq> 3 then
        Inl (ValueError ''Invalid tuple size in creation of Decimal from list or tuple.  The list or tuple should have exactly three elements.'')
      else if as_int (xs ! 0) \<notin> {Some 0, Some 1} then
        Inl (ValueError ''Invalid sign.  The first value in the tuple should be an integer; either 0 for a positive number or 1 for a negative number.'')
      else
        (let sgn = (as_int (xs ! 0) = Some 1) in
         if xs ! 2 = PStr ''F'' then Inr (Infinity sgn)
         else
           bnd (iter_digits (xs ! 1)) (\<lambda>n.
             if xs ! 2 = PStr ''n'' then Inr (NaN sgn False n)
             else if xs ! 2 = PStr ''N'' then Inr (NaN sgn True n)
             else
               (case as_int (xs ! 2) of
                  Some e \<Rightarrow> Inr (Finite sgn n e)
                | None \<Rightarrow>
                    Inl (ValueError ''The third value in the tuple must be an integer, or one of the strings 'F', 'n', 'N'.'')))))"

definition Decimal :: "pyval \<Rightarrow> error + decimal" where
  "Decimal v =
     (case v of
        PStr s \<Rightarrow> Decimal_of_str s
      | PInt i \<Rightarrow> Inr (Decimal_of_int i)
      | PBool b \<Rightarrow> Inr (Decimal_of_int (if b then 1 else 0))
      | PDecimal d \<Rightarrow> Inr d
      | PList xs \<Rightarrow> Decimal_of_list xs
      | _ \<Rightarrow> Inl (TypeError ''Cannot convert to Decimal''))"

text \<open>The two class methods \<^verbatim>\<open>fromisoformat\<close> insist on a string.\<close>

definition date_fromisoformat_py :: "pyval \<Rightarrow> error + date" where
  "date_fromisoformat_py v =
     (case v of
        PStr s \<Rightarrow> date_fromisoformat s
      | _ \<Rightarrow> Inl (TypeError ''fromisoformat: argument must be str''))"

definition datetime_fromisoformat_py :: "pyval \<Rightarrow> error + datetime" where
  "datetime_fromisoformat_py v =
     (case v of
        PStr s \<Rightarrow> datetime_fromisoformat s
      | _ \<Rightarrow> Inl (TypeError ''fromisoformat: argument must be str''))"

section \<open>The tagged-dict converter: \<^verbatim>\<open>Stock.to_dict\<close> and \<^verbatim>\<open>Trade.to_dict\<close>\<close>



section \<open>The generic codec: \<^verbatim>\<open>CustomEncoder\<close> and \<^verbatim>\<open>custom_decoder\<close>\<close>









text \<open>
  \<^verbatim>\<open>custom_decoder\<close>.  Python evaluates the arguments of the constructor call from
  left to right, after the \<^verbatim>\<open>fromisoformat\<close> call of the line before; the first
  exception ends the call.
\<close>

definition custom_decoder :: "(string \<times> pyval) list \<Rightarrow> error + pyval" where
  "custom_decoder dct =
     (if contains dct ''__type__'' then
        (if getitem dct ''__type__'' = Inr (PStr ''Stock'') then
           bnd (getitem dct ''date'') (\<lambda>date_v.
           bnd (date_fromisoformat_py date_v) (\<lambda>dt.
           bnd (getitem dct ''symbol'') (\<lambda>symbol.
           bnd (getitem dct ''open'') (\<lambda>open_val.
           bnd (Decimal open_val) (\<lambda>open'.
           bnd (getitem dct ''high'') (\<lambda>high_v.
           bnd (Decimal high_v) (\<lambda>high.
           bnd (getitem dct ''low'') (\<lambda>low_v.
           bnd (Decimal low_v) (\<lambda>low.
           bnd (getitem dct ''close'') (\<lambda>close_v.
           bnd (Decimal close_v) (\<lambda>close.
           bnd (getitem dct ''volume'') (\<lambda>volume.
           Inr (Stock symbol (PDate dt) open' high low close volume)))))))))))))
         else if getitem dct ''__type__'' = Inr (PStr ''Trade'') then
           bnd (getitem dct ''timestamp'') (\<lambda>timestamp_v.
           bnd (datetime_fromisoformat_py timestamp_v) (\<lambda>ts.
           bnd (getitem dct ''symbol'') (\<lambda>symbol.
           bnd (getitem dct ''order'') (\<lambda>order.
           bnd (getitem dct ''price'') (\<lambda>price_v.
           bnd (Decimal price_v) (\<lambda>price.
           bnd (getitem dct ''volume'') (\<lambda>volume.
           bnd (getitem dct ''commission'') (\<lambda>commission_v.
           bnd (Decimal commission_v) (\<lambda>commission.
           Inr (Trade symbol (PDateTime ts) order price volume commission))))))))))
         else Inr (PDict dct))
      else Inr (PDict dct))"

text \<open>
  \<^verbatim>\<open>json.loads(text, object_hook=custom_decoder)\<close>: every object of the text becomes
  a dictionary of its decoded members, which is handed to the hook at once, so
  inner objects are decoded before the objects that hold them.
\<close>

fun loads :: "json \<Rightarrow> error + pyval" where
  "loads JNull = Inr PNone"
| "loads (JBool b) = Inr (PBool b)"
| "loads (JInt i) = Inr (PInt i)"
| "loads (JStr s) = Inr (PStr s)"
| "loads (JArr js) =
     (case sequence_err (map loads js) of Inl e \<Rightarrow> Inl e | Inr xs \<Rightarrow> Inr (PList xs))"
| "loads (JObj kjs) =
     (case sequence_err
             (map (\<lambda>kj. case loads (snd kj) of Inl e \<Rightarrow> Inl e | Inr v \<Rightarrow> Inr (fst kj, v)) kjs) of
        Inl e \<Rightarrow> Inl e
      | Inr kvs \<Rightarrow> custom_decoder (dict_of_pairs kvs))"

section \<open>The schema codec\<close>

text \<open>
  The two schemas of the module declare these fields, every one with
  \<^verbatim>\<open>required=True\<close> and the decimal ones with \<^verbatim>\<open>as_string=True\<close>.
\<close>

datatype field = Str | Date | DateTime | DecimalField | Integer

datatype schema = StockSchema | TradeSchema

fun declared_fields :: "schema \<Rightarrow> (string \<times> field) list" where
  "declared_fields StockSchema =
     [(''symbol'', Str), (''date'', Date), (''open'', DecimalField), (''high'', DecimalField),
      (''low'', DecimalField), (''close'', DecimalField), (''volume'', Integer)]"
| "declared_fields TradeSchema =
     [(''symbol'', Str), (''timestamp'', DateTime), (''order'', Str), (''price'', DecimalField),
      (''volume'', Integer), (''commission'', DecimalField)]"

text \<open>
  Modelled from the spec: the schema engine, that is the methods \<^verbatim>\<open>Schema.dumps\<close> and
  \<^verbatim>\<open>Schema.loads\<close> and the field classes of the validation library, which is not
  part of the repository.  The spec (section 4.3) has it encode a record, field by
  declared field, with decimal fields as exact base-10 strings and dates in ISO-8601
  form; and decode by checking every field's presence and type, coercing strings to
  the native value, collecting every failure under the name of its field rather than
  stopping at the first, and failing on a field mismatch (missing or extra); a
  construction step then builds the record from the validated fields.  The messages
  are the library's.  A decimal field is written in fixed-point notation (the
  library uses \<^verbatim>\<open>format(value, "f")\<close>) and does not accept a NaN or an infinity.
  The spec describes the encoding of a field that holds a value of its declared
  type; for any other stored value this model raises a \<^verbatim>\<open>TypeError\<close>.
\<close>

definition get_attribute :: "pyval \<Rightarrow> string \<Rightarrow> pyval option" where
  "get_attribute obj name =
     (case obj of
        Stock s d o' h l c v \<Rightarrow>
          map_of [(''symbol'', s), (''date'', d), (''open'', PDecimal o'), (''high'', PDecimal h),
                  (''low'', PDecimal l), (''close'', PDecimal c), (''volume'', v)] name
      | Trade s t o' p v c \<Rightarrow>
          map_of [(''symbol'', s), (''timestamp'', t), (''order'', o'), (''price'', PDecimal p),
                  (''volume'', v), (''commission'', PDecimal c)] name
      | _ \<Rightarrow> None)"

definition not_of_declared_type :: error where
  "not_of_declared_type = TypeError ''value is not of the declared type of the field''"

fun field_serialize :: "field \<Rightarrow> pyval \<Rightarrow> error + json" where
  "field_serialize Str (PStr s) = Inr (JStr s)"
| "field_serialize Date (PDate d) = Inr (JStr (date_isoformat d))"
| "field_serialize DateTime (PDateTime t) = Inr (JStr (datetime_isoformat t))"
| "field_serialize DecimalField (PDecimal d) = Inr (JStr (decimal_format_f d))"
| "field_serialize Integer (PInt i) = Inr (JInt i)"
| "field_serialize f v = Inl not_of_declared_type"

definition Schema_dumps :: "schema \<Rightarrow> pyval \<Rightarrow> error + json" where
  "Schema_dumps sch obj =
     (case sequence_err
             (map (\<lambda>(name, f).
                     case get_attribute obj name of
                       None \<Rightarrow> Inl (TypeError ''object lacks an attribute of the schema'')
                     | Some v \<Rightarrow>
                         (case field_serialize f v of Inl e \<Rightarrow> Inl e | Inr j \<Rightarrow> Inr (name, j)))
                  (declared_fields sch)) of
        Inl e \<Rightarrow> Inl e
      | Inr js \<Rightarrow> Inr (JObj js))"

text \<open>\<^verbatim>\<open>serialize_with_marshmallow\<close>.\<close>

definition serialize_with_marshmallow :: "pyval \<Rightarrow> error + json" where
  "serialize_with_marshmallow obj =
     (case obj of
        Stock s d o' h l c v \<Rightarrow> Schema_dumps StockSchema obj
      | Trade s t o' p v c \<Rightarrow> Schema_dumps TradeSchema obj
      | _ \<Rightarrow> Inl (TypeError (''Object of type '' @ type_repr obj @ '' is not supported'')))"

text \<open>\<^verbatim>\<open>json.loads(text)\<close> without a hook.\<close>

fun json_loads :: "json \<Rightarrow> pyval" where
  "json_loads JNull = PNone"
| "json_loads (JBool b) = PBool b"
| "json_loads (JInt i) = PInt i"
| "json_loads (JStr s) = PStr s"
| "json_loads (JArr js) = PList (map json_loads js)"
| "json_loads (JObj kjs) = PDict (dict_of_pairs (map (\<lambda>kj. (fst kj, json_loads (snd kj))) kjs))"

text \<open>A decimal integer literal with an optional sign, for the integer field.\<close>

definition parse_int :: "string \<Rightarrow> int option" where
  "parse_int s =
     (let (neg, ds) =
        (case s of
           [] \<Rightarrow> (False, [])
         | c # t \<Rightarrow>
             if c = CHR ''-'' then (True, t)
             else if c = CHR ''+'' then (False, t) else (False, s))
      in if ds = [] \<or> \<not> list_all is_digit ds then None
         else Some (if neg then - int (int_of_digits ds) else int (int_of_digits ds)))"

fun field_deserialize :: "field \<Rightarrow> pyval \<Rightarrow> string + pyval" where
  "field_deserialize f PNone = Inl ''Field may not be null.''"
| "field_deserialize Str (PStr s) = Inr (PStr s)"
| "field_deserialize Str v = Inl ''Not a valid string.''"
| "field_deserialize Date (PStr s) =
     (case date_fromisoformat s of Inr d \<Rightarrow> Inr (PDate d) | Inl e \<Rightarrow> Inl ''Not a valid date.'')"
| "field_deserialize Date v = Inl ''Not a valid date.''"
| "field_deserialize DateTime (PStr s) =
     (case datetime_fromisoformat s of
        Inr t \<Rightarrow> Inr (PDateTime t)
      | Inl e \<Rightarrow> Inl ''Not a valid datetime.'')"
| "field_deserialize DateTime v = Inl ''Not a valid datetime.''"
| "field_deserialize DecimalField (PStr s) =
     (case Decimal_of_str s of
        Inr d \<Rightarrow>
          if is_finite d then Inr (PDecimal d)
          else Inl ''Special numeric values (nan or infinity) are not permitted.''
      | Inl e \<Rightarrow> Inl ''Not a valid number.'')"
| "field_deserialize DecimalField (PInt i) = Inr (PDecimal (Decimal_of_int i))"
| "field_deserialize DecimalField v = Inl ''Not a valid number.''"
| "field_deserialize Integer (PInt i) = Inr (PInt i)"
| "field_deserialize Integer (PStr s) =
     (case parse_int s of Some i \<Rightarrow> Inr (PInt i) | None \<Rightarrow> Inl ''Not a valid integer.'')"
| "field_deserialize Integer v = Inl ''Not a valid integer.''"

text \<open>
  One pass over the declared fields, then one over the keys of the input: the
  outcome for a declared field is an error message or its validated value.
\<close>

definition load_field :: "(string \<times> pyval) list \<Rightarrow> string \<times> field \<Rightarrow> string \<times> (string + pyval)" where
  "load_field d nf =
     (fst nf,
      case map_of d (fst nf) of
        None \<Rightarrow> Inl ''Missing data for required field.''
      | Some v \<Rightarrow> field_deserialize (snd nf) v)"

definition field_errors :: "(string \<times> (string + pyval)) list \<Rightarrow> (string \<times> string) list" where
  "field_errors rs = concat (map (\<lambda>(k, r). case r of Inl m \<Rightarrow> [(k, m)] | Inr v \<Rightarrow> []) rs)"

definition field_values :: "(string \<times> (string + pyval)) list \<Rightarrow> (string \<times> pyval) list" where
  "field_values rs = concat (map (\<lambda>(k, r). case r of Inl m \<Rightarrow> [] | Inr v \<Rightarrow> [(k, v)]) rs)"

definition unknown_fields :: "schema \<Rightarrow> (string \<times> pyval) list \<Rightarrow> (string \<times> string) list" where
  "unknown_fields sch d =
     map (\<lambda>k. (k, ''Unknown field.''))
         (filter (\<lambda>k. k \<notin> set (map fst (declared_fields sch))) (map fst d))"

definition as_decimal :: "pyval \<Rightarrow> error + decimal" where
  "as_decimal v = (case v of PDecimal d \<Rightarrow> Inr d | _ \<Rightarrow> Inl not_of_declared_type)"

text \<open>
  \<^verbatim>\<open>StockSchema.make_stock\<close> and \<^verbatim>\<open>TradeSchema.make_trade\<close>, the construction steps
  of the module, on the dictionary of validated fields.
\<close>

definition make_stock :: "(string \<times> pyval) list \<Rightarrow> error + pyval" where
  "make_stock data =
     bnd (getitem data ''symbol'') (\<lambda>symbol.
     bnd (getitem data ''date'') (\<lambda>date.
     bnd (bnd (getitem data ''open'') as_decimal) (\<lambda>open'.
     bnd (bnd (getitem data ''high'') as_decimal) (\<lambda>high.
     bnd (bnd (getitem data ''low'') as_decimal) (\<lambda>low.
     bnd (bnd (getitem data ''close'') as_decimal) (\<lambda>close.
     bnd (getitem data ''volume'') (\<lambda>volume.
     Inr (Stock symbol date open' high low close volume))))))))"

definition make_trade :: "(string \<times> pyval) list \<Rightarrow> error + pyval" where
  "make_trade data =
     bnd (getitem data ''symbol'') (\<lambda>symbol.
     bnd (getitem data ''timestamp'') (\<lambda>timestamp.
     bnd (getitem data ''order'') (\<lambda>order.
     bnd (bnd (getitem data ''price'') as_decimal) (\<lambda>price.
     bnd (getitem data ''volume'') (\<lambda>volume.
     bnd (bnd (getitem data ''commission'') as_decimal) (\<lambda>commission.
     Inr (Trade symbol timestamp order price volume commission)))))))"

fun post_load :: "schema \<Rightarrow> (string \<times> pyval) list \<Rightarrow> error + pyval" where
  "post_load StockSchema data = make_stock data"
| "post_load TradeSchema data = make_trade data"

definition Schema_load :: "schema \<Rightarrow> pyval \<Rightarrow> error + pyval" where
  "Schema_load sch v =
     (case v of
        PDict d \<Rightarrow>
          (let rs = map (load_field d) (declared_fields sch);
               errors = field_errors rs @ unknown_fields sch d
           in if errors = [] then post_load sch (field_values rs)
              else Inl (ValidationError errors))
      | _ \<Rightarrow> Inl (ValidationError [(''_schema'', ''Invalid input type.'')]))"

text \<open>\<^verbatim>\<open>deserialize_with_marshmallow\<close>.\<close>

definition deserialize_with_marshmallow :: "json \<Rightarrow> schema \<Rightarrow> error + pyval" where
  "deserialize_with_marshmallow json_str sch = Schema_load sch (json_loads json_str)"

section \<open>Pass-through of the tagged decoder\<close>

text \<open>
  C3: a mapping without the reserved key \<^verbatim>\<open>"__type__"\<close> is returned by
  \<^verbatim>\<open>custom_decoder\<close> unchanged: the same keys with the same values, in the same
  order.
\<close>

theorem custom_decoder_untagged:
  assumes "\<not> contains dct ''__type__''"
  shows "custom_decoder dct = Inr (PDict dct)"
  using assms by (simp add: custom_decoder_def)

theorem custom_decoder_untagged_witness:
  "\<not> contains [(''name'', PStr ''x''), (''n'', PInt 3)] ''__type__''
   \<and> custom_decoder [(''name'', PStr ''x''), (''n'', PInt 3)]
       = Inr (PDict [(''name'', PStr ''x''), (''n'', PInt 3)])"
  using custom_decoder_untagged [of "[(''name'', PStr ''x''), (''n'', PInt 3)]"]
  by (simp add: contains_def)

text \<open>
  C4: a mapping whose \<^verbatim>\<open>"__type__"\<close> value is neither \<^verbatim>\<open>"Stock"\<close> nor
  \<^verbatim>\<open>"Trade"\<close> (a string such as \<^verbatim>\<open>"Bond"\<close>, or a value that is no string) is
  returned by \<^verbatim>\<open>custom_decoder\<close> unchanged: no exception is raised and no record
  is built.
\<close>

theorem custom_decoder_unknown_tag:
  assumes "getitem dct ''__type__'' = Inr t"
    and "t \<noteq> PStr ''Stock''" and "t \<noteq> PStr ''Trade''"
  shows "custom_decoder dct = Inr (PDict dct)"
  using assms by (simp add: custom_decoder_def)

theorem custom_decoder_unknown_tag_witness:
  "getitem [(''__type__'', PStr ''Bond''), (''symbol'', PStr ''X'')] ''__type__'' = Inr (PStr ''Bond'')
   \<and> PStr ''Bond'' \<noteq> PStr ''Stock'' \<and> PStr ''Bond'' \<noteq> PStr ''Trade''
   \<and> custom_decoder [(''__type__'', PStr ''Bond''), (''symbol'', PStr ''X'')]
       = Inr (PDict [(''__type__'', PStr ''Bond''), (''symbol'', PStr ''X'')])"
  using custom_decoder_unknown_tag
          [of "[(''__type__'', PStr ''Bond''), (''symbol'', PStr ''X'')]" "PStr ''Bond''"]
  by (simp add: getitem_def)

section \<open>Objects the encoder does not know\<close>





end
